theory Spec2Isabelle
  imports Main
begin

section \<open>TransportBrowserTab: the data\<close>

text \<open>
  The transport of \<^verbatim>\<open>src/background/transport/transport-browser-tab.ts\<close> talks to a
  browser tab through a \<^verbatim>\<open>chrome.runtime.Port\<close>. The browser is the environment: what it
  answers is a parameter (\<open>world\<close>), and what the transport does to it is returned as a
  list of effects, oldest first. Each public method and each listener runs to completion
  before the next one starts; a call of \<^verbatim>\<open>disconnect()\<close> in the middle of a running
  \<^verbatim>\<open>connect()\<close> is outside this development.
\<close>

text \<open>A \<^verbatim>\<open>chrome.tabs.Tab\<close>; the source compares tabs by their \<^verbatim>\<open>id\<close> only.\<close>

record tab =
  tab_id :: nat
  tab_url :: string

text \<open>
  Modelled from the spec: the wire shapes of \<^verbatim>\<open>background/protocol/types\<close>, which is not
  among the sources. A message has an \<^verbatim>\<open>action\<close> and a \<^verbatim>\<open>data\<close> field, either of which
  may be missing.
\<close>

record message =
  action :: "string option"
  data :: "string option"

text \<open>
  A \<^verbatim>\<open>chrome.runtime.Port\<close>. \<open>port_id\<close> is the identity of the object: the number of
  ports the browser had handed out before this one.
\<close>

record port =
  port_id :: nat
  port_tab :: nat
  port_name :: string

datatype listener = OnDisconnect | OnMessage

text \<open>The errors handed to \<^verbatim>\<open>emit('err', ...)\<close>, by their message key.\<close>

datatype err =
    ErrorBrowserTabNoPermissions string
  | ErrorBrowserCannotCreateTab
  | ErrorBrowserCannotConnectToTab
  | ErrorKeeWebDisconnected
  | PortNotConnected

text \<open>
  What the transport does to the outside: events emitted to its owner and calls of the
  browser's API. \<open>SetTimeout n\<close> is a call of \<^verbatim>\<open>setTimeout\<close> with \<open>n\<close> milliseconds, and
  \<open>TimerFired n\<close> marks the moment such a timer has run out and its callback starts.
\<close>

datatype effect =
    Emit_err err
  | Emit_message message
  | PermissionsContains string
  | GetActiveTab
  | TabsQuery string
  | TabsCreate string
  | ActivateTab tab
  | TabsConnect nat string
  | PostMessage port message
  | PortDisconnect port
  | AddListener port listener
  | RemoveListener port listener
  | SetTimeout nat
  | TimerFired nat
  | ClearTimeout

text \<open>
  What happens first on a freshly opened port: the response timer fires, the port
  disconnects, or a message arrives.
\<close>

datatype outcome = Timeout | Disconnected | Message message

text \<open>
  The browser. \<open>randomBase64 w n\<close> is the result of the \<open>n\<close>-th call of
  \<^verbatim>\<open>randomBase64(32)\<close> (of \<^verbatim>\<open>background/utils\<close>, not among the sources);
  \<open>farEnd w p\<close> is what the tab does with port \<open>p\<close>.
\<close>

record world =
  hasPermissions :: bool
  getActiveTab :: "tab option"
  tabsQuery :: "tab list"
  tabsCreate :: "tab option"
  randomBase64 :: "nat \<Rightarrow> string"
  farEnd :: "port \<Rightarrow> outcome"

text \<open>
  The fields of the class, and \<open>opened\<close>, the number of ports the browser has handed
  out to this transport so far.
\<close>

record state =
  keeWebUrl :: string
  tab :: "tab option"
  port :: "port option"
  opened :: nat

text \<open>
  Reading \<^verbatim>\<open>this._tab.id\<close> while \<^verbatim>\<open>_tab\<close> is undefined throws; in a promise this is a
  rejection.
\<close>

datatype error = TypeError

section \<open>The operations\<close>

definition maxTabConnectionRetries :: int where
  "maxTabConnectionRetries = 10"

definition tabConnectionRetryMillis :: nat where
  "tabConnectionRetryMillis = 500"

definition tabConnectionTimeoutMillis :: nat where
  "tabConnectionTimeoutMillis = 500"

definition getRandomPortName :: "world \<Rightarrow> nat \<Rightarrow> string" where
  "getRandomPortName w n = ''keeweb-connect-'' @ randomBase64 w n"

definition cleanup :: "port \<Rightarrow> effect list" where
  "cleanup p = [ClearTimeout, RemoveListener p OnDisconnect, RemoveListener p OnMessage]"

definition pingRequest :: "port \<Rightarrow> message" where
  "pingRequest p = \<lparr>action = Some ''ping'', data = Some (port_name p)\<rparr>"

text \<open>The port of the next attempt, and what opening it and sending the ping does.\<close>

definition newPort :: "world \<Rightarrow> tab \<Rightarrow> state \<Rightarrow> port" where
  "newPort w t s =
     \<lparr>port_id = opened s, port_tab = tab_id t, port_name = getRandomPortName w (opened s)\<rparr>"

definition openPort :: "port \<Rightarrow> effect list" where
  "openPort p =
     [TabsConnect (port_tab p) (port_name p),
      SetTimeout tabConnectionTimeoutMillis,
      AddListener p OnDisconnect,
      AddListener p OnMessage,
      PostMessage p (pingRequest p)]"

text \<open>Effects done before a nested promise settles come before its own.\<close>

fun after :: "effect list \<Rightarrow> error + ('a \<times> state \<times> effect list) \<Rightarrow>
    error + ('a \<times> state \<times> effect list)" where
  "after es (Inl e) = Inl e"
| "after es (Inr (r, s, es')) = Inr (r, s, es @ es')"

text \<open>
  \<^verbatim>\<open>connectToTab(retriesLeft)\<close>. One call opens one port and then waits for the first of
  three callbacks; two of them call \<^verbatim>\<open>connectToTab(retriesLeft - 1)\<close> and resolve with
  whatever that call resolves with. The result is the port resolved with, the fields
  afterwards, and the effects in the order they happen. The tab is read again in every
  call, and no call changes it.
\<close>

function connectToTab :: "world \<Rightarrow> int \<Rightarrow> state \<Rightarrow> error + (port option \<times> state \<times> effect list)"
  where
  "connectToTab w retriesLeft s =
     (if retriesLeft \<le> 0 then Inr (None, s, [])
      else case tab s of
        None \<Rightarrow> Inl TypeError
      | Some t \<Rightarrow>
          (let p = newPort w t s;
               s' = s\<lparr>opened := Suc (opened s)\<rparr>
           in case farEnd w p of
             Timeout \<Rightarrow>
               after (openPort p @ [TimerFired tabConnectionTimeoutMillis] @ cleanup p
                        @ [PortDisconnect p])
                 (connectToTab w (retriesLeft - 1) s')
           | Disconnected \<Rightarrow>
               after (openPort p @ cleanup p
                        @ [SetTimeout tabConnectionRetryMillis,
                           TimerFired tabConnectionRetryMillis])
                 (connectToTab w (retriesLeft - 1) s')
           | Message msg \<Rightarrow>
               if data msg = Some (port_name p)
               then Inr (Some p, s', openPort p @ cleanup p)
               else Inr (None, s', openPort p @ cleanup p @ [PortDisconnect p])))"
  by pat_completeness auto
termination
  by (relation "measure (\<lambda>(w, retriesLeft, s). nat retriesLeft)") auto

definition checkPermissions :: "world \<Rightarrow> state \<Rightarrow> bool \<times> effect list" where
  "checkPermissions w s = (hasPermissions w, [PermissionsContains (keeWebUrl s)])"

definition findOrCreateTab :: "world \<Rightarrow> state \<Rightarrow> tab option \<times> effect list" where
  "findOrCreateTab w s =
     (case tabsQuery w of
        t # _ \<Rightarrow> (Some t, [TabsQuery (keeWebUrl s)])
      | [] \<Rightarrow> (tabsCreate w, [TabsQuery (keeWebUrl s), TabsCreate (keeWebUrl s)]))"

text \<open>
  \<^verbatim>\<open>if (activeTab && this._tab.id !== activeTab.id) await activateTab(activeTab)\<close>,
  which stands twice in \<^verbatim>\<open>connect\<close>.
\<close>

definition restoreFocus :: "tab option \<Rightarrow> state \<Rightarrow> error + effect list" where
  "restoreFocus activeTab s =
     (case activeTab of
        None \<Rightarrow> Inr []
      | Some a \<Rightarrow>
          (case tab s of
             None \<Rightarrow> Inl TypeError
           | Some t \<Rightarrow> Inr (if tab_id t \<noteq> tab_id a then [ActivateTab a] else [])))"

definition connect :: "world \<Rightarrow> state \<Rightarrow> error + (state \<times> effect list)" where
  "connect w s =
     (case checkPermissions w s of (hasPerm, e0) \<Rightarrow>
      if \<not> hasPerm
      then Inr (s, e0 @ [Emit_err (ErrorBrowserTabNoPermissions (keeWebUrl s))])
      else
        (let activeTab = getActiveTab w in
         case findOrCreateTab w s of (t, e1) \<Rightarrow>
           (let s1 = s\<lparr>tab := t\<rparr> in
            if tab s1 = None
            then Inr (s1, e0 @ [GetActiveTab] @ e1 @ [Emit_err ErrorBrowserCannotCreateTab])
            else
              (case connectToTab w maxTabConnectionRetries s1 of
                 Inl e \<Rightarrow> Inl e
               | Inr (p, s2, e2) \<Rightarrow>
                   (let s3 = s2\<lparr>port := p\<rparr> in
                    case port s3 of
                      None \<Rightarrow>
                        (case restoreFocus activeTab s3 of
                           Inl e \<Rightarrow> Inl e
                         | Inr e3 \<Rightarrow>
                             Inr (s3, e0 @ [GetActiveTab] @ e1 @ e2 @ e3
                                        @ [Emit_err ErrorBrowserCannotConnectToTab]))
                    | Some p' \<Rightarrow>
                        (case restoreFocus activeTab s3 of
                           Inl e \<Rightarrow> Inl e
                         | Inr e3 \<Rightarrow>
                             Inr (s3, e0 @ [GetActiveTab] @ e1 @ e2
                                        @ [AddListener p' OnDisconnect, AddListener p' OnMessage]
                                        @ e3)))))))"

definition disconnect :: "state \<Rightarrow> state \<times> effect list" where
  "disconnect s =
     (let s1 = s\<lparr>tab := None\<rparr>;
          e1 = (case port s1 of None \<Rightarrow> [] | Some p \<Rightarrow> [PortDisconnect p])
      in case port s1 of
           Some p \<Rightarrow> (s1\<lparr>port := None\<rparr>, e1 @ [Emit_err ErrorKeeWebDisconnected])
         | None \<Rightarrow> (s1, e1))"

definition request :: "message \<Rightarrow> state \<Rightarrow> state \<times> effect list" where
  "request msg s =
     (case port s of
        Some p \<Rightarrow> (s, [PostMessage p msg])
      | None \<Rightarrow> (s, [Emit_err PortNotConnected]))"

definition portDisconnected :: "state \<Rightarrow> state \<times> effect list" where
  "portDisconnected s =
     (case (case port s of
              Some p \<Rightarrow> (s\<lparr>port := None\<rparr>, [Emit_err ErrorKeeWebDisconnected])
            | None \<Rightarrow> (s, []))
      of (s1, e1) \<Rightarrow> (s1\<lparr>tab := None\<rparr>, e1))"

definition portMessage :: "message \<Rightarrow> state \<Rightarrow> state \<times> effect list" where
  "portMessage msg s = (s, [Emit_message msg])"

section \<open>Reading a list of effects\<close>

fun isErr :: "effect \<Rightarrow> bool" where
  "isErr (Emit_err e) = True"
| "isErr _ = False"

fun isTabsConnect :: "effect \<Rightarrow> bool" where
  "isTabsConnect (TabsConnect i n) = True"
| "isTabsConnect _ = False"

fun isActivateTab :: "effect \<Rightarrow> bool" where
  "isActivateTab (ActivateTab t) = True"
| "isActivateTab _ = False"

text \<open>An effect that calls a method of a port object or registers on one.\<close>

fun touchesPort :: "effect \<Rightarrow> bool" where
  "touchesPort (PostMessage p m) = True"
| "touchesPort (PortDisconnect p) = True"
| "touchesPort (AddListener p l) = True"
| "touchesPort (RemoveListener p l) = True"
| "touchesPort _ = False"

definition errorsEmitted :: "effect list \<Rightarrow> effect list" where
  "errorsEmitted es = filter isErr es"

definition portsOpened :: "effect list \<Rightarrow> nat" where
  "portsOpened es = length (filter isTabsConnect es)"

definition activations :: "effect list \<Rightarrow> effect list" where
  "activations es = filter isActivateTab es"

text \<open>The disconnect event of one connection, delivered \<open>n\<close> times in a row.\<close>

fun deliverDisconnect :: "nat \<Rightarrow> state \<Rightarrow> state \<times> effect list" where
  "deliverDisconnect 0 s = (s, [])"
| "deliverDisconnect (Suc n) s =
     (case portDisconnected s of (s1, e1) \<Rightarrow>
      case deliverDisconnect n s1 of (s2, e2) \<Rightarrow> (s2, e1 @ e2))"

text \<open>The port a settled handshake resolved with, and what it did on the way.\<close>

fun resolvedWith :: "error + (port option \<times> state \<times> effect list) \<Rightarrow> port option" where
  "resolvedWith (Inl e) = None"
| "resolvedWith (Inr (p, s, es)) = p"

fun effectsOf :: "error + (port option \<times> state \<times> effect list) \<Rightarrow> effect list" where
  "effectsOf (Inl e) = []"
| "effectsOf (Inr (p, s, es)) = es"

text \<open>The fields a settled \<^verbatim>\<open>connect\<close> leaves behind, and what it did.\<close>

fun finalState :: "error + (state \<times> effect list) \<Rightarrow> state option" where
  "finalState (Inl e) = None"
| "finalState (Inr (s, es)) = Some s"

fun performed :: "error + (state \<times> effect list) \<Rightarrow> effect list" where
  "performed (Inl e) = []"
| "performed (Inr (s, es)) = es"

text \<open>The test of \<^verbatim>\<open>tabMessage\<close>: the outcome is a message whose data is the name.\<close>

fun confirms :: "outcome \<Rightarrow> string \<Rightarrow> bool" where
  "confirms (Message msg) name = (data msg = Some name)"
| "confirms Timeout name = False"
| "confirms Disconnected name = False"

text \<open>What every run of the handshake does and leaves alone.\<close>

definition handshakeOk :: "int \<Rightarrow> state \<Rightarrow> error + (port option \<times> state \<times> effect list) \<Rightarrow> bool"
  where
  "handshakeOk retriesLeft s r =
     (case r of
        Inl e \<Rightarrow> False
      | Inr (p, s', es) \<Rightarrow>
          tab s' = tab s \<and> port s' = port s \<and> keeWebUrl s' = keeWebUrl s
          \<and> opened s' = opened s + portsOpened es
          \<and> portsOpened es \<le> nat retriesLeft
          \<and> errorsEmitted es = [] \<and> activations es = [])"

section \<open>Example browsers\<close>

definition keeWeb :: string where
  "keeWeb = ''https://app.keeweb.info/''"

definition userTab :: tab where
  "userTab = \<lparr>tab_id = 1, tab_url = ''https://example.org/''\<rparr>"

definition keeWebTab :: tab where
  "keeWebTab = \<lparr>tab_id = 2, tab_url = keeWeb\<rparr>"

definition idle :: state where
  "idle = \<lparr>keeWebUrl = keeWeb, tab = None, port = None, opened = 0\<rparr>"

text \<open>The transport once \<^verbatim>\<open>connect\<close> has found the tab and before the handshake.\<close>

definition tabAcquired :: state where
  "tabAcquired = idle\<lparr>tab := Some keeWebTab\<rparr>"

definition tokens :: "nat \<Rightarrow> string" where
  "tokens n = (if n = 0 then ''AAAA'' else ''BBBB'')"

definition pong :: "string \<Rightarrow> message" where
  "pong d = \<lparr>action = Some ''ping'', data = Some d\<rparr>"

text \<open>A page that answers every ping with the name of the port it came on.\<close>

definition echoWorld :: world where
  "echoWorld =
     \<lparr>hasPermissions = True, getActiveTab = Some userTab, tabsQuery = [keeWebTab],
      tabsCreate = None, randomBase64 = tokens,
      farEnd = (\<lambda>p. Message (pong (port_name p)))\<rparr>"

text \<open>A page that never answers.\<close>

definition silentWorld :: world where
  "silentWorld = echoWorld\<lparr>farEnd := (\<lambda>p. Timeout)\<rparr>"

text \<open>A page that drops every port at once.\<close>

definition droppingWorld :: world where
  "droppingWorld = echoWorld\<lparr>farEnd := (\<lambda>p. Disconnected)\<rparr>"

text \<open>
  A page that answers the first port with the name of an earlier, abandoned port, and
  every later port properly.
\<close>

definition staleWorld :: world where
  "staleWorld =
     echoWorld\<lparr>farEnd := (\<lambda>p. if port_id p = 0 then Message (pong ''keeweb-connect-old'')
                             else Message (pong (port_name p)))\<rparr>"

text \<open>A browser that has not granted the permission.\<close>

definition deniedWorld :: world where
  "deniedWorld = echoWorld\<lparr>hasPermissions := False\<rparr>"

text \<open>A browser with no KeeWeb tab, in which creating one fails.\<close>

definition noTabWorld :: world where
  "noTabWorld = echoWorld\<lparr>tabsQuery := [], tabsCreate := None\<rparr>"

text \<open>A browser in which the KeeWeb tab is the active one.\<close>

definition sameTabWorld :: world where
  "sameTabWorld = echoWorld\<lparr>getActiveTab := Some keeWebTab\<rparr>"

definition examplePort :: port where
  "examplePort = \<lparr>port_id = 0, port_tab = 2, port_name = ''keeweb-connect-AAAA''\<rparr>"

text \<open>The transport after a successful \<^verbatim>\<open>connect\<close>.\<close>

definition connectedState :: state where
  "connectedState =
     \<lparr>keeWebUrl = keeWeb, tab = Some keeWebTab, port = Some examplePort, opened = 1\<rparr>"

section \<open>The handshake, step by step\<close>

declare connectToTab.simps [simp del]

lemma after_append: "after es (after es' r) = after (es @ es') r"
  by (cases "(es', r)" rule: after.cases) auto

lemma connectToTab_exhausted:
  "retriesLeft \<le> 0 \<Longrightarrow> connectToTab w retriesLeft s = Inr (None, s, [])"
  by (simp add: connectToTab.simps)

lemma connectToTab_timeout:
  "0 < retriesLeft \<Longrightarrow> tab s = Some t \<Longrightarrow> farEnd w (newPort w t s) = Timeout \<Longrightarrow>
   connectToTab w retriesLeft s =
     after (openPort (newPort w t s) @ [TimerFired tabConnectionTimeoutMillis]
              @ cleanup (newPort w t s) @ [PortDisconnect (newPort w t s)])
       (connectToTab w (retriesLeft - 1) (s\<lparr>opened := Suc (opened s)\<rparr>))"
  by (subst connectToTab.simps) (simp add: Let_def)

lemma connectToTab_disconnected:
  "0 < retriesLeft \<Longrightarrow> tab s = Some t \<Longrightarrow> farEnd w (newPort w t s) = Disconnected \<Longrightarrow>
   connectToTab w retriesLeft s =
     after (openPort (newPort w t s) @ cleanup (newPort w t s)
              @ [SetTimeout tabConnectionRetryMillis, TimerFired tabConnectionRetryMillis])
       (connectToTab w (retriesLeft - 1) (s\<lparr>opened := Suc (opened s)\<rparr>))"
  by (subst connectToTab.simps) (simp add: Let_def)

lemma connectToTab_message:
  "0 < retriesLeft \<Longrightarrow> tab s = Some t \<Longrightarrow> farEnd w (newPort w t s) = Message msg \<Longrightarrow>
   connectToTab w retriesLeft s =
     (if data msg = Some (port_name (newPort w t s))
      then Inr (Some (newPort w t s), s\<lparr>opened := Suc (opened s)\<rparr>,
                openPort (newPort w t s) @ cleanup (newPort w t s))
      else Inr (None, s\<lparr>opened := Suc (opened s)\<rparr>,
                openPort (newPort w t s) @ cleanup (newPort w t s)
                  @ [PortDisconnect (newPort w t s)]))"
  by (subst connectToTab.simps) (simp add: Let_def)

lemma portsOpened_append [simp]: "portsOpened (es @ es') = portsOpened es + portsOpened es'"
  by (simp add: portsOpened_def)

lemma errorsEmitted_append [simp]: "errorsEmitted (es @ es') = errorsEmitted es @ errorsEmitted es'"
  by (simp add: errorsEmitted_def)

lemma activations_append [simp]: "activations (es @ es') = activations es @ activations es'"
  by (simp add: activations_def)

lemma openPort_counts [simp]:
  "portsOpened (openPort p) = 1" "errorsEmitted (openPort p) = []" "activations (openPort p) = []"
  by (simp_all add: openPort_def portsOpened_def errorsEmitted_def activations_def)

lemma cleanup_counts [simp]:
  "portsOpened (cleanup p) = 0" "errorsEmitted (cleanup p) = []" "activations (cleanup p) = []"
  by (simp_all add: cleanup_def portsOpened_def errorsEmitted_def activations_def)

lemma counts_Nil [simp]:
  "portsOpened [] = 0" "errorsEmitted [] = []" "activations [] = []"
  by (simp_all add: portsOpened_def errorsEmitted_def activations_def)

lemma counts_Cons [simp]:
  "portsOpened (e # es) = (if isTabsConnect e then 1 else 0) + portsOpened es"
  "errorsEmitted (e # es) = (if isErr e then [e] else []) @ errorsEmitted es"
  "activations (e # es) = (if isActivateTab e then [e] else []) @ activations es"
  by (simp_all add: portsOpened_def errorsEmitted_def activations_def)

lemma handshakeOk_after:
  "handshakeOk (r - 1) (s\<lparr>opened := Suc (opened s)\<rparr>) x \<Longrightarrow> 0 < r \<Longrightarrow>
   portsOpened es = 1 \<Longrightarrow> errorsEmitted es = [] \<Longrightarrow> activations es = [] \<Longrightarrow>
   handshakeOk r s (after es x)"
  by (cases "(es, x)" rule: after.cases) (auto simp: handshakeOk_def)

lemma connectToTab_ok:
  "tab s \<noteq> None \<Longrightarrow> handshakeOk retriesLeft s (connectToTab w retriesLeft s)"
proof (induction w retriesLeft s rule: connectToTab.induct)
  case (1 w retriesLeft s)
  show ?case
  proof (cases "retriesLeft \<le> 0")
    case True
    then show ?thesis by (simp add: connectToTab_exhausted handshakeOk_def)
  next
    case False
    from "1.prems" obtain t where t: "tab s = Some t" by auto
    let ?p = "newPort w t s"
    let ?s = "s\<lparr>opened := Suc (opened s)\<rparr>"
    have pos: "0 < retriesLeft" using False by simp
    show ?thesis
    proof (cases "farEnd w ?p")
      case Timeout
      have "handshakeOk (retriesLeft - 1) ?s (connectToTab w (retriesLeft - 1) ?s)"
        using "1.IH"(1) [OF False t refl refl Timeout] t by simp
      then show ?thesis
        using pos by (simp add: connectToTab_timeout [OF pos t Timeout] handshakeOk_after)
    next
      case Disconnected
      have "handshakeOk (retriesLeft - 1) ?s (connectToTab w (retriesLeft - 1) ?s)"
        using "1.IH"(2) [OF False t refl refl Disconnected] t by simp
      then show ?thesis
        using pos by (simp add: connectToTab_disconnected [OF pos t Disconnected] handshakeOk_after)
    next
      case (Message msg)
      show ?thesis
        using pos by (simp add: connectToTab_message [OF pos t Message] handshakeOk_def)
    qed
  qed
qed


lemma connectToTab_resolves:
  assumes "tab s = Some t"
  obtains p s' es where "connectToTab w retriesLeft s = Inr (p, s', es)"
    "tab s' = Some t" "port s' = port s" "keeWebUrl s' = keeWebUrl s"
    "opened s' = opened s + portsOpened es" "portsOpened es \<le> nat retriesLeft"
    "errorsEmitted es = []" "activations es = []"
proof -
  have "handshakeOk retriesLeft s (connectToTab w retriesLeft s)"
    using assms by (simp add: connectToTab_ok)
  then show thesis
    using that assms by (auto simp: handshakeOk_def split: sum.splits)
qed

lemma connect_denied:
  "\<not> hasPermissions w \<Longrightarrow>
   connect w s = Inr (s, [PermissionsContains (keeWebUrl s),
                          Emit_err (ErrorBrowserTabNoPermissions (keeWebUrl s))])"
  by (simp add: connect_def checkPermissions_def)

lemma connect_noTab:
  "hasPermissions w \<Longrightarrow> fst (findOrCreateTab w s) = None \<Longrightarrow>
   connect w s = Inr (s\<lparr>tab := None\<rparr>,
                      [PermissionsContains (keeWebUrl s), GetActiveTab]
                        @ snd (findOrCreateTab w s) @ [Emit_err ErrorBrowserCannotCreateTab])"
  by (cases "findOrCreateTab w s") (simp add: connect_def checkPermissions_def)

lemma connect_handshake:
  assumes "hasPermissions w" "fst (findOrCreateTab w s) = Some t"
    and "connectToTab w maxTabConnectionRetries (s\<lparr>tab := Some t\<rparr>) = Inr (p, s2, e2)"
  shows "connect w s =
     Inr (s2\<lparr>port := p\<rparr>,
          [PermissionsContains (keeWebUrl s), GetActiveTab] @ snd (findOrCreateTab w s) @ e2
            @ (case p of
                 None \<Rightarrow>
                   (case getActiveTab w of
                      None \<Rightarrow> []
                    | Some a \<Rightarrow> if tab_id t \<noteq> tab_id a then [ActivateTab a] else [])
                   @ [Emit_err ErrorBrowserCannotConnectToTab]
               | Some p' \<Rightarrow>
                   [AddListener p' OnDisconnect, AddListener p' OnMessage]
                   @ (case getActiveTab w of
                        None \<Rightarrow> []
                      | Some a \<Rightarrow> if tab_id t \<noteq> tab_id a then [ActivateTab a] else [])))"
proof -
  obtain p0 s0 es0 where r: "connectToTab w maxTabConnectionRetries (s\<lparr>tab := Some t\<rparr>) = Inr (p0, s0, es0)"
    and t2: "tab s0 = Some t"
    by (rule connectToTab_resolves [of "s\<lparr>tab := Some t\<rparr>" t w maxTabConnectionRetries]) simp_all
  with assms(3) have t2': "tab s2 = Some t" by simp
  show ?thesis
    using assms t2'
    by (cases "findOrCreateTab w s")
       (simp add: connect_def checkPermissions_def restoreFocus_def split: option.splits)
qed

lemma effectsOf_after [simp]:
  "x \<noteq> Inl TypeError \<Longrightarrow> effectsOf (after es x) = es @ effectsOf x"
  by (cases "(es, x)" rule: after.cases) (auto intro: error.exhaust)

lemma resolvedWith_after [simp]: "resolvedWith (after es x) = resolvedWith x"
  by (cases "(es, x)" rule: after.cases) auto

lemma connectToTab_starts:
  assumes "0 < retriesLeft" "tab s = Some t"
  shows "\<exists>rest. effectsOf (connectToTab w retriesLeft s) = openPort (newPort w t s) @ rest"
proof (cases "farEnd w (newPort w t s)")
  case Timeout
  obtain p s' es where "connectToTab w (retriesLeft - 1) (s\<lparr>opened := Suc (opened s)\<rparr>) = Inr (p, s', es)"
    by (rule connectToTab_resolves [of "s\<lparr>opened := Suc (opened s)\<rparr>" t w "retriesLeft - 1"])
       (simp_all add: assms)
  then show ?thesis
    by (simp add: connectToTab_timeout [OF assms Timeout])
next
  case Disconnected
  obtain p s' es where "connectToTab w (retriesLeft - 1) (s\<lparr>opened := Suc (opened s)\<rparr>) = Inr (p, s', es)"
    by (rule connectToTab_resolves [of "s\<lparr>opened := Suc (opened s)\<rparr>" t w "retriesLeft - 1"])
       (simp_all add: assms)
  then show ?thesis
    by (simp add: connectToTab_disconnected [OF assms Disconnected])
next
  case (Message msg)
  show ?thesis
    by (simp add: connectToTab_message [OF assms Message])
qed

lemma openPort_explicit:
  "openPort (newPort w t s) =
     [TabsConnect (tab_id t) (getRandomPortName w (opened s)),
      SetTimeout 500,
      AddListener (newPort w t s) OnDisconnect,
      AddListener (newPort w t s) OnMessage,
      PostMessage (newPort w t s)
        \<lparr>action = Some ''ping'', data = Some (getRandomPortName w (opened s))\<rparr>]"
  by (simp add: openPort_def newPort_def pingRequest_def tabConnectionTimeoutMillis_def)

lemma findOrCreateTab_counts [simp]:
  "portsOpened (snd (findOrCreateTab w s)) = 0"
  "errorsEmitted (snd (findOrCreateTab w s)) = []"
  "activations (snd (findOrCreateTab w s)) = []"
  by (simp_all add: findOrCreateTab_def split: list.splits)

lemma connect_cases:
  obtains (denied) "\<not> hasPermissions w"
      "connect w s = Inr (s, [PermissionsContains (keeWebUrl s),
                              Emit_err (ErrorBrowserTabNoPermissions (keeWebUrl s))])"
  | (noTab) "hasPermissions w" "fst (findOrCreateTab w s) = None"
      "connect w s = Inr (s\<lparr>tab := None\<rparr>,
                         [PermissionsContains (keeWebUrl s), GetActiveTab]
                           @ snd (findOrCreateTab w s) @ [Emit_err ErrorBrowserCannotCreateTab])"
  | (failed) t s2 e2 where "hasPermissions w" "fst (findOrCreateTab w s) = Some t"
      "connectToTab w maxTabConnectionRetries (s\<lparr>tab := Some t\<rparr>) = Inr (None, s2, e2)"
      "tab s2 = Some t" "keeWebUrl s2 = keeWebUrl s"
      "portsOpened e2 \<le> 10" "errorsEmitted e2 = []" "activations e2 = []"
      "connect w s =
         Inr (s2\<lparr>port := None\<rparr>,
              [PermissionsContains (keeWebUrl s), GetActiveTab] @ snd (findOrCreateTab w s) @ e2
                @ (case getActiveTab w of
                     None \<Rightarrow> []
                   | Some a \<Rightarrow> if tab_id t \<noteq> tab_id a then [ActivateTab a] else [])
                @ [Emit_err ErrorBrowserCannotConnectToTab])"
  | (connected) t p s2 e2 where "hasPermissions w" "fst (findOrCreateTab w s) = Some t"
      "connectToTab w maxTabConnectionRetries (s\<lparr>tab := Some t\<rparr>) = Inr (Some p, s2, e2)"
      "tab s2 = Some t" "keeWebUrl s2 = keeWebUrl s"
      "portsOpened e2 \<le> 10" "errorsEmitted e2 = []" "activations e2 = []"
      "connect w s =
         Inr (s2\<lparr>port := Some p\<rparr>,
              [PermissionsContains (keeWebUrl s), GetActiveTab] @ snd (findOrCreateTab w s) @ e2
                @ [AddListener p OnDisconnect, AddListener p OnMessage]
                @ (case getActiveTab w of
                     None \<Rightarrow> []
                   | Some a \<Rightarrow> if tab_id t \<noteq> tab_id a then [ActivateTab a] else []))"
proof (cases "hasPermissions w")
  case False
  then show thesis using denied connect_denied by blast
next
  case True
  show thesis
  proof (cases "fst (findOrCreateTab w s)")
    case None
    then show thesis using noTab True connect_noTab by blast
  next
    case (Some t)
    obtain p s2 e2 where
      r: "connectToTab w maxTabConnectionRetries (s\<lparr>tab := Some t\<rparr>) = Inr (p, s2, e2)"
      and f: "tab s2 = Some t" "keeWebUrl s2 = keeWebUrl (s\<lparr>tab := Some t\<rparr>)"
        "portsOpened e2 \<le> nat maxTabConnectionRetries"
        "errorsEmitted e2 = []" "activations e2 = []"
      by (rule connectToTab_resolves [of "s\<lparr>tab := Some t\<rparr>" t w maxTabConnectionRetries])
         simp_all
    have f': "keeWebUrl s2 = keeWebUrl s" "portsOpened e2 \<le> 10"
      using f by (simp_all add: maxTabConnectionRetries_def)
    show thesis
    proof (cases p)
      case None
      show thesis
        using failed [OF True Some r [unfolded None] f(1) f' f(4,5)]
          connect_handshake [OF True Some r] None by simp
    next
      case (Some p')
      show thesis
        using connected [OF True \<open>fst (findOrCreateTab w s) = Some t\<close> r [unfolded Some] f(1) f' f(4,5)]
          connect_handshake [OF True \<open>fst (findOrCreateTab w s) = Some t\<close> r] Some by simp
    qed
  qed
qed

lemma connectToTab_retry:
  assumes "0 < retriesLeft" "tab s = Some t"
    and "farEnd w (newPort w t s) = Timeout \<or> farEnd w (newPort w t s) = Disconnected"
  shows "resolvedWith (connectToTab w retriesLeft s)
      = resolvedWith (connectToTab w (retriesLeft - 1) (s\<lparr>opened := Suc (opened s)\<rparr>))
    \<and> portsOpened (effectsOf (connectToTab w retriesLeft s))
      = 1 + portsOpened (effectsOf (connectToTab w (retriesLeft - 1)
                                      (s\<lparr>opened := Suc (opened s)\<rparr>)))"
proof -
  obtain p s' es where
    r: "connectToTab w (retriesLeft - 1) (s\<lparr>opened := Suc (opened s)\<rparr>) = Inr (p, s', es)"
    by (rule connectToTab_resolves [of "s\<lparr>opened := Suc (opened s)\<rparr>" t w "retriesLeft - 1"])
       (simp_all add: assms)
  from assms(3) show ?thesis
  proof
    assume o: "farEnd w (newPort w t s) = Timeout"
    show ?thesis by (simp add: connectToTab_timeout [OF assms(1,2) o] r)
  next
    assume o: "farEnd w (newPort w t s) = Disconnected"
    show ?thesis by (simp add: connectToTab_disconnected [OF assms(1,2) o] r)
  qed
qed

lemma connectToTab_never_answered:
  assumes "\<forall>p. farEnd w p = Timeout \<or> farEnd w p = Disconnected"
  shows "tab s = Some t \<Longrightarrow>
    resolvedWith (connectToTab w retriesLeft s) = None
    \<and> portsOpened (effectsOf (connectToTab w retriesLeft s)) = nat retriesLeft"
proof (induction "nat retriesLeft" arbitrary: retriesLeft s)
  case 0
  then show ?case by (simp add: connectToTab_exhausted)
next
  case (Suc n)
  then have pos: "0 < retriesLeft" and n: "n = nat (retriesLeft - 1)" by simp_all
  have o: "farEnd w (newPort w t s) = Timeout \<or> farEnd w (newPort w t s) = Disconnected"
    using assms by blast
  have t': "tab (s\<lparr>opened := Suc (opened s)\<rparr>) = Some t"
    using Suc.prems by simp
  show ?case
    using connectToTab_retry [OF pos Suc.prems o] Suc.hyps(1) [OF n t'] Suc.hyps(2)
    by simp
qed

lemma connect_exhausted:
  assumes "\<forall>p. farEnd w p = Timeout \<or> farEnd w p = Disconnected"
    and "hasPermissions w" and "fst (findOrCreateTab w s) = Some t"
  shows "case connect w s of
           Inl e \<Rightarrow> False
         | Inr (s', es) \<Rightarrow>
             port s' = None \<and> portsOpened es = 10
             \<and> errorsEmitted es = [Emit_err ErrorBrowserCannotConnectToTab]"
proof -
  have n: "resolvedWith (connectToTab w maxTabConnectionRetries (s\<lparr>tab := Some t\<rparr>)) = None
      \<and> portsOpened (effectsOf (connectToTab w maxTabConnectionRetries (s\<lparr>tab := Some t\<rparr>)))
        = nat maxTabConnectionRetries"
    by (rule connectToTab_never_answered [OF assms(1)]) simp
  show ?thesis
  proof (cases rule: connect_cases [of w s])
    case denied
    then show ?thesis using assms by simp
  next
    case noTab
    then show ?thesis using assms by simp
  next
    case (failed t' s2 e2)
    then have "t' = t" using assms by simp
    then show ?thesis
      using failed n
      by (simp add: maxTabConnectionRetries_def split: option.splits)
  next
    case (connected t' p s2 e2)
    then have "t' = t" using assms by simp
    then show ?thesis using connected n by simp
  qed
qed

lemma connectToTab_last_attempt:
  assumes "tab s = Some t"
    and "\<not> confirms (farEnd w (newPort w t s)) (port_name (newPort w t s))"
  shows "resolvedWith (connectToTab w 1 s) = None
    \<and> portsOpened (effectsOf (connectToTab w 1 s)) = 1"
proof (cases "farEnd w (newPort w t s)")
  case Timeout
  then show ?thesis
    using connectToTab_retry [of 1 s t w] assms(1) by (simp add: connectToTab_exhausted)
next
  case Disconnected
  then show ?thesis
    using connectToTab_retry [of 1 s t w] assms(1) by (simp add: connectToTab_exhausted)
next
  case (Message msg)
  have "0 < (1::int)" by simp
  from connectToTab_message [OF this assms(1) Message] assms(2) Message
  show ?thesis by simp
qed

lemma connect_portsOpened:
  "case connect w s of Inl e \<Rightarrow> False | Inr (s', es) \<Rightarrow> portsOpened es \<le> 10"
proof (cases rule: connect_cases [of w s])
  case denied
  then show ?thesis by simp
next
  case noTab
  then show ?thesis by simp
next
  case (failed t s2 e2)
  then show ?thesis by (simp split: option.splits)
next
  case (connected t p s2 e2)
  then show ?thesis by (simp split: option.splits)
qed

lemma portDisconnected_cases:
  "portDisconnected s =
     (s\<lparr>port := None, tab := None\<rparr>,
      if port s = None then [] else [Emit_err ErrorKeeWebDisconnected])"
  by (cases "port s") (simp_all add: portDisconnected_def)

lemma deliverDisconnect_cleared:
  "port s = None \<Longrightarrow> snd (deliverDisconnect n s) = []"
  by (induction n arbitrary: s) (simp_all add: portDisconnected_cases split: prod.splits)

lemma errorsEmitted_focus [simp]:
  "errorsEmitted (case a of None \<Rightarrow> [] | Some x \<Rightarrow> if c x then [ActivateTab x] else []) = []"
  by (simp split: option.splits)

lemma activations_focus [simp]:
  "activations (case a of None \<Rightarrow> [] | Some x \<Rightarrow> if c x then [ActivateTab x] else [])
     = (case a of None \<Rightarrow> [] | Some x \<Rightarrow> if c x then [ActivateTab x] else [])"
  by (simp split: option.splits)

lemma connect_handshake_failed:
  assumes "hasPermissions w" and "fst (findOrCreateTab w s) = Some t"
    and "resolvedWith (connectToTab w maxTabConnectionRetries (s\<lparr>tab := Some t\<rparr>)) = None"
  shows "\<exists>s' es. connect w s = Inr (s', es) \<and> port s' = None \<and> tab s' = Some t
           \<and> errorsEmitted es = [Emit_err ErrorBrowserCannotConnectToTab]"
proof (cases rule: connect_cases [of w s])
  case denied
  then show ?thesis using assms by simp
next
  case noTab
  then show ?thesis using assms by simp
next
  case (failed t' s2 e2)
  then have "t' = t" using assms by simp
  then show ?thesis using failed by simp
next
  case (connected t' p s2 e2)
  then have "t' = t" using assms by simp
  then show ?thesis using connected assms by simp
qed

lemma connect_handshake_succeeded:
  assumes "hasPermissions w" and "fst (findOrCreateTab w s) = Some t"
    and "resolvedWith (connectToTab w maxTabConnectionRetries (s\<lparr>tab := Some t\<rparr>)) = Some p"
  shows "\<exists>s' es. connect w s = Inr (s', es) \<and> port s' = Some p \<and> tab s' = Some t
           \<and> errorsEmitted es = []"
proof (cases rule: connect_cases [of w s])
  case denied
  then show ?thesis using assms by simp
next
  case noTab
  then show ?thesis using assms by simp
next
  case (failed t' s2 e2)
  then have "t' = t" using assms by simp
  then show ?thesis using failed assms by simp
next
  case (connected t' p' s2 e2)
  then have "t' = t" using assms by simp
  then show ?thesis using connected assms by simp
qed

lemma connect_activations:
  assumes "hasPermissions w" and "fst (findOrCreateTab w s) = Some t"
  shows "\<exists>s' es. connect w s = Inr (s', es)
     \<and> activations es = (case getActiveTab w of
                           None \<Rightarrow> []
                         | Some a \<Rightarrow> if tab_id t \<noteq> tab_id a then [ActivateTab a] else [])"
proof (cases rule: connect_cases [of w s])
  case denied
  then show ?thesis using assms by simp
next
  case noTab
  then show ?thesis using assms by simp
next
  case (failed t' s2 e2)
  then have "t' = t" using assms by simp
  then show ?thesis using failed by (simp split: option.splits)
next
  case (connected t' p' s2 e2)
  then have "t' = t" using assms by simp
  then show ?thesis using connected by (simp split: option.splits)
qed


lemma silentWorld_facts:
  "hasPermissions silentWorld"
  "fst (findOrCreateTab silentWorld idle) = Some keeWebTab"
  "getActiveTab silentWorld = Some userTab"
  "\<forall>p. farEnd silentWorld p = Timeout \<or> farEnd silentWorld p = Disconnected"
  by (simp_all add: silentWorld_def echoWorld_def findOrCreateTab_def)

lemma silentWorld_exhausts:
  "resolvedWith (connectToTab silentWorld maxTabConnectionRetries (idle\<lparr>tab := Some keeWebTab\<rparr>))
     = None"
  using connectToTab_never_answered [OF silentWorld_facts(4),
      of "idle\<lparr>tab := Some keeWebTab\<rparr>" keeWebTab maxTabConnectionRetries]
  by simp

lemma echoWorld_facts:
  "hasPermissions echoWorld"
  "fst (findOrCreateTab echoWorld idle) = Some keeWebTab"
  "getActiveTab echoWorld = Some userTab"
  "hasPermissions sameTabWorld"
  "fst (findOrCreateTab sameTabWorld idle) = Some keeWebTab"
  "getActiveTab sameTabWorld = Some keeWebTab"
  by (simp_all add: sameTabWorld_def echoWorld_def findOrCreateTab_def)

lemma echoWorld_connects:
  "resolvedWith (connectToTab echoWorld maxTabConnectionRetries (idle\<lparr>tab := Some keeWebTab\<rparr>))
     = Some examplePort"
proof -
  have a: "0 < maxTabConnectionRetries" by (simp add: maxTabConnectionRetries_def)
  have b: "tab (idle\<lparr>tab := Some keeWebTab\<rparr>) = Some keeWebTab" by simp
  have p: "newPort echoWorld keeWebTab (idle\<lparr>tab := Some keeWebTab\<rparr>) = examplePort"
    by (simp add: newPort_def idle_def keeWebTab_def examplePort_def getRandomPortName_def
        echoWorld_def tokens_def)
  have c: "farEnd echoWorld (newPort echoWorld keeWebTab (idle\<lparr>tab := Some keeWebTab\<rparr>))
      = Message (pong (port_name examplePort))"
    unfolding p by (simp add: echoWorld_def)
  show ?thesis
    using connectToTab_message [OF a b c] by (simp add: p pong_def)
qed

section \<open>The handshake\<close>

text \<open>
  Claim C1. In every attempt of the handshake (a call of \<^verbatim>\<open>connectToTab\<close> with budget
  left), when a message is what happens first on the attempt's port: the port was opened
  under the name drawn for this attempt, the ping carried that name as its data, and the
  handshake resolves with this very port if and only if the data of the message is that
  name. Otherwise the port is closed and the handshake resolves with no port at once:
  one port was opened and no other, whatever budget was left.
\<close>

theorem handshake_message_decides:
  assumes "0 < retriesLeft" and "tab s = Some t"
    and "farEnd w (newPort w t s) = Message msg"
  shows "port_name (newPort w t s) = getRandomPortName w (opened s)
    \<and> connectToTab w retriesLeft s =
        (if data msg = Some (getRandomPortName w (opened s))
         then Inr (Some (newPort w t s), s\<lparr>opened := Suc (opened s)\<rparr>,
                [TabsConnect (tab_id t) (getRandomPortName w (opened s)),
                 SetTimeout 500,
                 AddListener (newPort w t s) OnDisconnect,
                 AddListener (newPort w t s) OnMessage,
                 PostMessage (newPort w t s)
                   \<lparr>action = Some ''ping'', data = Some (getRandomPortName w (opened s))\<rparr>,
                 ClearTimeout,
                 RemoveListener (newPort w t s) OnDisconnect,
                 RemoveListener (newPort w t s) OnMessage])
         else Inr (None, s\<lparr>opened := Suc (opened s)\<rparr>,
                [TabsConnect (tab_id t) (getRandomPortName w (opened s)),
                 SetTimeout 500,
                 AddListener (newPort w t s) OnDisconnect,
                 AddListener (newPort w t s) OnMessage,
                 PostMessage (newPort w t s)
                   \<lparr>action = Some ''ping'', data = Some (getRandomPortName w (opened s))\<rparr>,
                 ClearTimeout,
                 RemoveListener (newPort w t s) OnDisconnect,
                 RemoveListener (newPort w t s) OnMessage,
                 PortDisconnect (newPort w t s)]))
    \<and> (resolvedWith (connectToTab w retriesLeft s) = Some (newPort w t s))
        = (data msg = Some (getRandomPortName w (opened s)))
    \<and> (resolvedWith (connectToTab w retriesLeft s) = None)
        = (data msg \<noteq> Some (getRandomPortName w (opened s)))
    \<and> portsOpened (effectsOf (connectToTab w retriesLeft s)) = 1"
proof -
  have n: "port_name (newPort w t s) = getRandomPortName w (opened s)"
    by (simp add: newPort_def)
  show ?thesis
    by (simp add: connectToTab_message [OF assms] n openPort_explicit cleanup_def)
qed


theorem handshake_message_decides_witness:
  "0 < (10::int) \<and> tab tabAcquired = Some keeWebTab
   \<and> farEnd staleWorld (newPort staleWorld keeWebTab tabAcquired)
       = Message (pong ''keeweb-connect-old'')
   \<and> port_name (newPort staleWorld keeWebTab tabAcquired) = ''keeweb-connect-AAAA''
   \<and> resolvedWith (connectToTab staleWorld 10 tabAcquired) = None
   \<and> portsOpened (effectsOf (connectToTab staleWorld 10 tabAcquired)) = 1
   \<and> farEnd echoWorld (newPort echoWorld keeWebTab tabAcquired)
       = Message (pong ''keeweb-connect-AAAA'')
   \<and> resolvedWith (connectToTab echoWorld 10 tabAcquired)
       = Some \<lparr>port_id = 0, port_tab = 2, port_name = ''keeweb-connect-AAAA''\<rparr>"
proof -
  have a: "0 < (10::int)" by simp
  have b: "tab tabAcquired = Some keeWebTab" by (simp add: tabAcquired_def idle_def)
  have c: "farEnd staleWorld (newPort staleWorld keeWebTab tabAcquired)
             = Message (pong ''keeweb-connect-old'')"
    by (simp add: staleWorld_def echoWorld_def newPort_def tabAcquired_def idle_def)
  have d: "farEnd echoWorld (newPort echoWorld keeWebTab tabAcquired)
             = Message (pong ''keeweb-connect-AAAA'')"
    by (simp add: echoWorld_def newPort_def tabAcquired_def idle_def getRandomPortName_def
        tokens_def)
  have e: "getRandomPortName staleWorld (opened tabAcquired) = ''keeweb-connect-AAAA''"
    "getRandomPortName echoWorld (opened tabAcquired) = ''keeweb-connect-AAAA''"
    by (simp_all add: staleWorld_def echoWorld_def tabAcquired_def idle_def
        getRandomPortName_def tokens_def)
  have f: "newPort echoWorld keeWebTab tabAcquired
             = \<lparr>port_id = 0, port_tab = 2, port_name = ''keeweb-connect-AAAA''\<rparr>"
    by (simp add: newPort_def e keeWebTab_def) (simp add: tabAcquired_def idle_def)
  have g: "port_name (newPort staleWorld keeWebTab tabAcquired) = ''keeweb-connect-AAAA''
      \<and> resolvedWith (connectToTab staleWorld 10 tabAcquired) = None
      \<and> portsOpened (effectsOf (connectToTab staleWorld 10 tabAcquired)) = 1"
    using handshake_message_decides [OF a b c] by (simp add: e pong_def)
  have h: "resolvedWith (connectToTab echoWorld 10 tabAcquired)
      = Some \<lparr>port_id = 0, port_tab = 2, port_name = ''keeweb-connect-AAAA''\<rparr>"
    using handshake_message_decides [OF a b d] by (simp add: e f pong_def)
  show ?thesis
    using a b c d g h by blast
qed

text \<open>
  Claim C2, as the spec states it, has the budget decremented on a mismatched or garbled
  pong as on a timeout or a disconnect. On the source, a page that answers the first port
  with a stale name ends a handshake of budget 10 with no port after that one port,
  although the handshake with budget \<open>10 - 1\<close> from the state then reached resolves
  with the second port: the handshake did not go on with a decremented budget.
\<close>

theorem mismatch_spends_no_budget_counterexample:
  "farEnd staleWorld (newPort staleWorld keeWebTab tabAcquired)
     = Message (pong ''keeweb-connect-old'')
   \<and> port_name (newPort staleWorld keeWebTab tabAcquired) = ''keeweb-connect-AAAA''
   \<and> resolvedWith (connectToTab staleWorld 10 tabAcquired) = None
   \<and> portsOpened (effectsOf (connectToTab staleWorld 10 tabAcquired)) = 1
   \<and> resolvedWith (connectToTab staleWorld (10 - 1) (tabAcquired\<lparr>opened := Suc 0\<rparr>))
     = Some \<lparr>port_id = 1, port_tab = 2, port_name = ''keeweb-connect-BBBB''\<rparr>
   \<and> resolvedWith (connectToTab staleWorld 10 tabAcquired)
     \<noteq> resolvedWith (connectToTab staleWorld (10 - 1) (tabAcquired\<lparr>opened := Suc 0\<rparr>))"
proof -
  have a: "0 < (10::int)" "0 < (9::int)" by simp_all
  have b: "tab tabAcquired = Some keeWebTab"
    "tab (tabAcquired\<lparr>opened := Suc 0\<rparr>) = Some keeWebTab"
    by (simp_all add: tabAcquired_def idle_def)
  have c: "farEnd staleWorld (newPort staleWorld keeWebTab tabAcquired)
             = Message (pong ''keeweb-connect-old'')"
    by (simp add: staleWorld_def echoWorld_def newPort_def tabAcquired_def idle_def)
  have d: "farEnd staleWorld (newPort staleWorld keeWebTab (tabAcquired\<lparr>opened := Suc 0\<rparr>))
             = Message (pong ''keeweb-connect-BBBB'')"
    by (simp add: staleWorld_def echoWorld_def newPort_def getRandomPortName_def tokens_def)
  have e: "port_name (newPort staleWorld keeWebTab tabAcquired) = ''keeweb-connect-AAAA''"
    by (simp add: staleWorld_def echoWorld_def newPort_def tabAcquired_def idle_def
        getRandomPortName_def tokens_def)
  have f: "newPort staleWorld keeWebTab (tabAcquired\<lparr>opened := Suc 0\<rparr>)
             = \<lparr>port_id = Suc 0, port_tab = 2, port_name = ''keeweb-connect-BBBB''\<rparr>"
    by (simp add: staleWorld_def echoWorld_def newPort_def keeWebTab_def
        getRandomPortName_def tokens_def)
  have g: "connectToTab staleWorld 10 tabAcquired
      = Inr (None, tabAcquired\<lparr>opened := Suc (opened tabAcquired)\<rparr>,
             openPort (newPort staleWorld keeWebTab tabAcquired)
               @ cleanup (newPort staleWorld keeWebTab tabAcquired)
               @ [PortDisconnect (newPort staleWorld keeWebTab tabAcquired)])"
    by (simp add: connectToTab_message [OF a(1) b(1) c] e pong_def)
  have h: "resolvedWith (connectToTab staleWorld 9 (tabAcquired\<lparr>opened := Suc 0\<rparr>))
      = Some \<lparr>port_id = Suc 0, port_tab = 2, port_name = ''keeweb-connect-BBBB''\<rparr>"
    by (simp add: connectToTab_message [OF a(2) b(2) d] f pong_def)
  show ?thesis
    using c e h by (simp add: g)
qed

text \<open>
  Claim C2, amended. The budget starts at 10. An attempt that ends by timeout or by the
  port disconnecting hands over to the handshake with the budget decremented by one
  (same resolution, one port more). A mismatched or garbled pong does not decrement
  anything: the handshake resolves with no port at once. A budget of zero resolves with
  no port and does nothing, and when no port is ever answered, \<^verbatim>\<open>connectToTab\<close> gives up
  after exactly 10 ports and \<^verbatim>\<open>connect\<close> ends with the cannot-connect error and no port.
\<close>

theorem budget_decrements:
  assumes "0 < retriesLeft" and "tab s = Some t"
  shows "maxTabConnectionRetries = 10
    \<and> (farEnd w (newPort w t s) = Timeout \<or> farEnd w (newPort w t s) = Disconnected \<longrightarrow>
         resolvedWith (connectToTab w retriesLeft s)
           = resolvedWith (connectToTab w (retriesLeft - 1) (s\<lparr>opened := Suc (opened s)\<rparr>))
         \<and> portsOpened (effectsOf (connectToTab w retriesLeft s))
           = 1 + portsOpened (effectsOf (connectToTab w (retriesLeft - 1)
                                           (s\<lparr>opened := Suc (opened s)\<rparr>))))
    \<and> (\<forall>msg. farEnd w (newPort w t s) = Message msg
                 \<and> data msg \<noteq> Some (port_name (newPort w t s)) \<longrightarrow>
         resolvedWith (connectToTab w retriesLeft s) = None
         \<and> portsOpened (effectsOf (connectToTab w retriesLeft s)) = 1)
    \<and> connectToTab w (retriesLeft - retriesLeft) s = Inr (None, s, [])
    \<and> ((\<forall>p. farEnd w p = Timeout \<or> farEnd w p = Disconnected) \<longrightarrow>
         resolvedWith (connectToTab w maxTabConnectionRetries s) = None
         \<and> portsOpened (effectsOf (connectToTab w maxTabConnectionRetries s)) = 10)
    \<and> ((\<forall>p. farEnd w p = Timeout \<or> farEnd w p = Disconnected)
         \<and> hasPermissions w \<and> fst (findOrCreateTab w s) \<noteq> None \<longrightarrow>
         (case connect w s of
            Inl e \<Rightarrow> False
          | Inr (s', es) \<Rightarrow>
              port s' = None \<and> portsOpened es = 10
              \<and> errorsEmitted es = [Emit_err ErrorBrowserCannotConnectToTab]))"
proof -
  have 1: "maxTabConnectionRetries = 10" by (simp add: maxTabConnectionRetries_def)
  have 2: "farEnd w (newPort w t s) = Timeout \<or> farEnd w (newPort w t s) = Disconnected \<longrightarrow>
         resolvedWith (connectToTab w retriesLeft s)
           = resolvedWith (connectToTab w (retriesLeft - 1) (s\<lparr>opened := Suc (opened s)\<rparr>))
         \<and> portsOpened (effectsOf (connectToTab w retriesLeft s))
           = 1 + portsOpened (effectsOf (connectToTab w (retriesLeft - 1)
                                           (s\<lparr>opened := Suc (opened s)\<rparr>)))"
    using connectToTab_retry [OF assms] by blast
  have 3: "\<forall>msg. farEnd w (newPort w t s) = Message msg
                 \<and> data msg \<noteq> Some (port_name (newPort w t s)) \<longrightarrow>
         resolvedWith (connectToTab w retriesLeft s) = None
         \<and> portsOpened (effectsOf (connectToTab w retriesLeft s)) = 1"
    by (simp add: connectToTab_message [OF assms] cleanup_def)
  have 4: "connectToTab w (retriesLeft - retriesLeft) s = Inr (None, s, [])"
    by (simp add: connectToTab_exhausted)
  have 5: "(\<forall>p. farEnd w p = Timeout \<or> farEnd w p = Disconnected) \<longrightarrow>
         resolvedWith (connectToTab w maxTabConnectionRetries s) = None
         \<and> portsOpened (effectsOf (connectToTab w maxTabConnectionRetries s)) = 10"
    using connectToTab_never_answered [of w s t maxTabConnectionRetries] assms(2)
    by (simp add: 1)
  have 6: "(\<forall>p. farEnd w p = Timeout \<or> farEnd w p = Disconnected)
         \<and> hasPermissions w \<and> fst (findOrCreateTab w s) \<noteq> None \<longrightarrow>
         (case connect w s of
            Inl e \<Rightarrow> False
          | Inr (s', es) \<Rightarrow>
              port s' = None \<and> portsOpened es = 10
              \<and> errorsEmitted es = [Emit_err ErrorBrowserCannotConnectToTab])"
    using connect_exhausted [of w s] by blast
  show ?thesis using 1 2 3 4 5 6 by blast
qed

theorem budget_decrements_witness:
  "resolvedWith (connectToTab silentWorld 10 tabAcquired)
     = resolvedWith (connectToTab silentWorld (10 - 1) (tabAcquired\<lparr>opened := Suc 0\<rparr>))
   \<and> resolvedWith (connectToTab silentWorld 10 tabAcquired) = None
   \<and> portsOpened (effectsOf (connectToTab silentWorld 10 tabAcquired)) = 10
   \<and> (case connect silentWorld tabAcquired of
         Inl e \<Rightarrow> False
       | Inr (s', es) \<Rightarrow>
           port s' = None \<and> portsOpened es = 10
           \<and> errorsEmitted es = [Emit_err ErrorBrowserCannotConnectToTab])
   \<and> resolvedWith (connectToTab staleWorld 10 tabAcquired) = None
   \<and> portsOpened (effectsOf (connectToTab staleWorld 10 tabAcquired)) = 1"
proof -
  have a: "0 < (10::int)" by simp
  have b: "tab tabAcquired = Some keeWebTab" by (simp add: tabAcquired_def idle_def)
  have c: "\<forall>p. farEnd silentWorld p = Timeout \<or> farEnd silentWorld p = Disconnected"
    by (simp add: silentWorld_def)
  have d: "hasPermissions silentWorld"
    "fst (findOrCreateTab silentWorld tabAcquired) \<noteq> None"
    by (simp_all add: silentWorld_def echoWorld_def findOrCreateTab_def)
  have e: "farEnd staleWorld (newPort staleWorld keeWebTab tabAcquired)
             = Message (pong ''keeweb-connect-old'')
      \<and> data (pong ''keeweb-connect-old'')
          \<noteq> Some (port_name (newPort staleWorld keeWebTab tabAcquired))"
    by (simp add: staleWorld_def echoWorld_def newPort_def tabAcquired_def idle_def
        getRandomPortName_def tokens_def pong_def)
  have f: "opened tabAcquired = 0" by (simp add: tabAcquired_def idle_def)
  have g: "resolvedWith (connectToTab staleWorld 10 tabAcquired) = None
      \<and> portsOpened (effectsOf (connectToTab staleWorld 10 tabAcquired)) = 1"
    using budget_decrements [OF a b, of staleWorld] e by blast
  have h: "resolvedWith (connectToTab silentWorld 10 tabAcquired)
      = resolvedWith (connectToTab silentWorld (10 - 1) (tabAcquired\<lparr>opened := Suc 0\<rparr>))
    \<and> resolvedWith (connectToTab silentWorld 10 tabAcquired) = None
    \<and> portsOpened (effectsOf (connectToTab silentWorld 10 tabAcquired)) = 10
    \<and> (case connect silentWorld tabAcquired of
         Inl e \<Rightarrow> False
       | Inr (s', es) \<Rightarrow>
           port s' = None \<and> portsOpened es = 10
           \<and> errorsEmitted es = [Emit_err ErrorBrowserCannotConnectToTab])"
    using budget_decrements [OF a b, of silentWorld, unfolded maxTabConnectionRetries_def f] c d
    by blast
  show ?thesis using g h by blast
qed

text \<open>
  Claim C3. The handshake with retry terminates: \<^verbatim>\<open>connectToTab\<close> is a total function
  (its recursion goes down on the budget), and started with a tab it always resolves,
  having opened no more ports than its budget. With a budget of zero or less it resolves
  with no port and does nothing at all. After a timeout or a disconnect the rest of the
  handshake is the handshake with the budget less one. So \<^verbatim>\<open>connect\<close>, which starts it
  with 10, opens at most 10 ports; and with a budget of 1 and a first attempt that is not
  confirmed, exactly one port is opened and there is no port in the end.
\<close>

theorem handshake_terminates:
  assumes "tab s = Some t"
  shows "(\<exists>p s' es. connectToTab w retriesLeft s = Inr (p, s', es)
            \<and> portsOpened es \<le> nat retriesLeft)
    \<and> (retriesLeft \<le> 0 \<longrightarrow> connectToTab w retriesLeft s = Inr (None, s, []))
    \<and> (0 < retriesLeft
         \<and> (farEnd w (newPort w t s) = Timeout \<or> farEnd w (newPort w t s) = Disconnected) \<longrightarrow>
         (\<exists>es. connectToTab w retriesLeft s
                 = after es (connectToTab w (retriesLeft - 1) (s\<lparr>opened := Suc (opened s)\<rparr>))))
    \<and> (case connect w s of Inl e \<Rightarrow> False | Inr (s', es) \<Rightarrow> portsOpened es \<le> 10)
    \<and> (retriesLeft = 1
         \<and> \<not> confirms (farEnd w (newPort w t s)) (port_name (newPort w t s)) \<longrightarrow>
         resolvedWith (connectToTab w retriesLeft s) = None
         \<and> portsOpened (effectsOf (connectToTab w retriesLeft s)) = 1)"
proof -
  have 1: "\<exists>p s' es. connectToTab w retriesLeft s = Inr (p, s', es)
            \<and> portsOpened es \<le> nat retriesLeft"
  proof -
    obtain p s' es where "connectToTab w retriesLeft s = Inr (p, s', es)"
      and "portsOpened es \<le> nat retriesLeft"
      by (rule connectToTab_resolves [OF assms, of w retriesLeft])
    then have "connectToTab w retriesLeft s = Inr (p, s', es)
        \<and> portsOpened es \<le> nat retriesLeft" by (rule conjI)
    then show ?thesis by (intro exI)
  qed
  have 2: "retriesLeft \<le> 0 \<longrightarrow> connectToTab w retriesLeft s = Inr (None, s, [])"
    by (simp add: connectToTab_exhausted)
  have 3: "0 < retriesLeft
         \<and> (farEnd w (newPort w t s) = Timeout \<or> farEnd w (newPort w t s) = Disconnected) \<longrightarrow>
         (\<exists>es. connectToTab w retriesLeft s
                 = after es (connectToTab w (retriesLeft - 1) (s\<lparr>opened := Suc (opened s)\<rparr>)))"
  proof (intro impI, elim conjE disjE)
    assume p: "0 < retriesLeft" and o: "farEnd w (newPort w t s) = Timeout"
    show "\<exists>es. connectToTab w retriesLeft s
                 = after es (connectToTab w (retriesLeft - 1) (s\<lparr>opened := Suc (opened s)\<rparr>))"
      using connectToTab_timeout [OF p assms o] by (rule exI)
  next
    assume p: "0 < retriesLeft" and o: "farEnd w (newPort w t s) = Disconnected"
    show "\<exists>es. connectToTab w retriesLeft s
                 = after es (connectToTab w (retriesLeft - 1) (s\<lparr>opened := Suc (opened s)\<rparr>))"
      using connectToTab_disconnected [OF p assms o] by (rule exI)
  qed
  have 4: "case connect w s of Inl e \<Rightarrow> False | Inr (s', es) \<Rightarrow> portsOpened es \<le> 10"
    by (rule connect_portsOpened)
  have 5: "retriesLeft = 1
         \<and> \<not> confirms (farEnd w (newPort w t s)) (port_name (newPort w t s)) \<longrightarrow>
         resolvedWith (connectToTab w retriesLeft s) = None
         \<and> portsOpened (effectsOf (connectToTab w retriesLeft s)) = 1"
  proof (intro impI, elim conjE)
    assume r: "retriesLeft = 1"
      and c: "\<not> confirms (farEnd w (newPort w t s)) (port_name (newPort w t s))"
    show "resolvedWith (connectToTab w retriesLeft s) = None
         \<and> portsOpened (effectsOf (connectToTab w retriesLeft s)) = 1"
      unfolding r by (rule connectToTab_last_attempt [OF assms c])
  qed
  show ?thesis by (rule conjI [OF 1 conjI [OF 2 conjI [OF 3 conjI [OF 4 5]]]])
qed

theorem handshake_terminates_witness:
  "connectToTab silentWorld 0 tabAcquired = Inr (None, tabAcquired, [])
   \<and> (\<exists>p s' es. connectToTab silentWorld 10 tabAcquired = Inr (p, s', es)
          \<and> portsOpened es \<le> 10)
   \<and> (\<exists>es. connectToTab silentWorld 10 tabAcquired
          = after es (connectToTab silentWorld (10 - 1) (tabAcquired\<lparr>opened := Suc 0\<rparr>)))
   \<and> resolvedWith (connectToTab silentWorld 1 tabAcquired) = None
   \<and> portsOpened (effectsOf (connectToTab silentWorld 1 tabAcquired)) = 1"
proof -
  have b: "tab tabAcquired = Some keeWebTab" by (simp add: tabAcquired_def idle_def)
  have c: "farEnd silentWorld (newPort silentWorld keeWebTab tabAcquired) = Timeout"
    by (simp add: silentWorld_def)
  have f: "opened tabAcquired = 0" by (simp add: tabAcquired_def idle_def)
  have n: "nat 10 = 10" by simp
  have 0: "connectToTab silentWorld 0 tabAcquired = Inr (None, tabAcquired, [])"
    using handshake_terminates [OF b, of silentWorld 0] by simp
  have 1: "(\<exists>p s' es. connectToTab silentWorld 10 tabAcquired = Inr (p, s', es)
          \<and> portsOpened es \<le> 10)
      \<and> (\<exists>es. connectToTab silentWorld 10 tabAcquired
          = after es (connectToTab silentWorld (10 - 1) (tabAcquired\<lparr>opened := Suc 0\<rparr>)))"
    using handshake_terminates [OF b, of silentWorld 10, unfolded f n] c by simp
  have 2: "resolvedWith (connectToTab silentWorld 1 tabAcquired) = None
   \<and> portsOpened (effectsOf (connectToTab silentWorld 1 tabAcquired)) = 1"
    using handshake_terminates [OF b, of silentWorld 1] c by simp
  show ?thesis using 0 1 2 by blast
qed

text \<open>
  Claim C4. For an attempt that fails with budget left: when the response timer fires
  first, the listeners are removed, the port is closed, and the next attempt follows at
  once (the next thing done is opening the next port); when the port disconnects first,
  the listeners are removed, a timer of 500 ms is set and the next attempt follows only
  when that timer has fired.
\<close>

theorem retry_delays:
  assumes "0 < retriesLeft" and "tab s = Some t"
  shows "(farEnd w (newPort w t s) = Timeout \<longrightarrow>
      connectToTab w retriesLeft s =
        after [TabsConnect (tab_id t) (getRandomPortName w (opened s)),
               SetTimeout 500,
               AddListener (newPort w t s) OnDisconnect,
               AddListener (newPort w t s) OnMessage,
               PostMessage (newPort w t s)
                 \<lparr>action = Some ''ping'', data = Some (getRandomPortName w (opened s))\<rparr>,
               TimerFired 500,
               ClearTimeout,
               RemoveListener (newPort w t s) OnDisconnect,
               RemoveListener (newPort w t s) OnMessage,
               PortDisconnect (newPort w t s)]
          (connectToTab w (retriesLeft - 1) (s\<lparr>opened := Suc (opened s)\<rparr>)))
    \<and> (farEnd w (newPort w t s) = Disconnected \<longrightarrow>
      connectToTab w retriesLeft s =
        after [TabsConnect (tab_id t) (getRandomPortName w (opened s)),
               SetTimeout 500,
               AddListener (newPort w t s) OnDisconnect,
               AddListener (newPort w t s) OnMessage,
               PostMessage (newPort w t s)
                 \<lparr>action = Some ''ping'', data = Some (getRandomPortName w (opened s))\<rparr>,
               ClearTimeout,
               RemoveListener (newPort w t s) OnDisconnect,
               RemoveListener (newPort w t s) OnMessage,
               SetTimeout 500,
               TimerFired 500]
          (connectToTab w (retriesLeft - 1) (s\<lparr>opened := Suc (opened s)\<rparr>)))
    \<and> (1 < retriesLeft \<longrightarrow>
      (\<exists>rest. effectsOf (connectToTab w (retriesLeft - 1) (s\<lparr>opened := Suc (opened s)\<rparr>))
         = TabsConnect (tab_id t) (getRandomPortName w (Suc (opened s))) # rest))"
proof -
  have 1: "farEnd w (newPort w t s) = Timeout \<longrightarrow>
      connectToTab w retriesLeft s =
        after [TabsConnect (tab_id t) (getRandomPortName w (opened s)),
               SetTimeout 500,
               AddListener (newPort w t s) OnDisconnect,
               AddListener (newPort w t s) OnMessage,
               PostMessage (newPort w t s)
                 \<lparr>action = Some ''ping'', data = Some (getRandomPortName w (opened s))\<rparr>,
               TimerFired 500,
               ClearTimeout,
               RemoveListener (newPort w t s) OnDisconnect,
               RemoveListener (newPort w t s) OnMessage,
               PortDisconnect (newPort w t s)]
          (connectToTab w (retriesLeft - 1) (s\<lparr>opened := Suc (opened s)\<rparr>))"
    using connectToTab_timeout [OF assms, of w]
    by (simp add: openPort_explicit cleanup_def tabConnectionTimeoutMillis_def)
  have 2: "farEnd w (newPort w t s) = Disconnected \<longrightarrow>
      connectToTab w retriesLeft s =
        after [TabsConnect (tab_id t) (getRandomPortName w (opened s)),
               SetTimeout 500,
               AddListener (newPort w t s) OnDisconnect,
               AddListener (newPort w t s) OnMessage,
               PostMessage (newPort w t s)
                 \<lparr>action = Some ''ping'', data = Some (getRandomPortName w (opened s))\<rparr>,
               ClearTimeout,
               RemoveListener (newPort w t s) OnDisconnect,
               RemoveListener (newPort w t s) OnMessage,
               SetTimeout 500,
               TimerFired 500]
          (connectToTab w (retriesLeft - 1) (s\<lparr>opened := Suc (opened s)\<rparr>))"
    using connectToTab_disconnected [OF assms, of w]
    by (simp add: openPort_explicit cleanup_def tabConnectionRetryMillis_def)
  have 3: "1 < retriesLeft \<longrightarrow>
      (\<exists>rest. effectsOf (connectToTab w (retriesLeft - 1) (s\<lparr>opened := Suc (opened s)\<rparr>))
         = TabsConnect (tab_id t) (getRandomPortName w (Suc (opened s))) # rest)"
  proof
    assume "1 < retriesLeft"
    then have p: "0 < retriesLeft - 1" by simp
    have t: "tab (s\<lparr>opened := Suc (opened s)\<rparr>) = Some t" using assms by simp
    from connectToTab_starts [OF p t, of w]
    show "\<exists>rest. effectsOf (connectToTab w (retriesLeft - 1) (s\<lparr>opened := Suc (opened s)\<rparr>))
         = TabsConnect (tab_id t) (getRandomPortName w (Suc (opened s))) # rest"
      by (auto simp: openPort_explicit)
  qed
  show ?thesis by (rule conjI [OF 1 conjI [OF 2 3]])
qed


theorem retry_delays_witness:
  "connectToTab silentWorld 10 tabAcquired =
     after [TabsConnect 2 ''keeweb-connect-AAAA'',
            SetTimeout 500,
            AddListener (newPort silentWorld keeWebTab tabAcquired) OnDisconnect,
            AddListener (newPort silentWorld keeWebTab tabAcquired) OnMessage,
            PostMessage (newPort silentWorld keeWebTab tabAcquired)
              \<lparr>action = Some ''ping'', data = Some ''keeweb-connect-AAAA''\<rparr>,
            TimerFired 500,
            ClearTimeout,
            RemoveListener (newPort silentWorld keeWebTab tabAcquired) OnDisconnect,
            RemoveListener (newPort silentWorld keeWebTab tabAcquired) OnMessage,
            PortDisconnect (newPort silentWorld keeWebTab tabAcquired)]
       (connectToTab silentWorld (10 - 1) (tabAcquired\<lparr>opened := Suc 0\<rparr>))
   \<and> (\<exists>rest. effectsOf (connectToTab silentWorld (10 - 1) (tabAcquired\<lparr>opened := Suc 0\<rparr>))
          = TabsConnect 2 ''keeweb-connect-BBBB'' # rest)
   \<and> connectToTab droppingWorld 10 tabAcquired =
     after [TabsConnect 2 ''keeweb-connect-AAAA'',
            SetTimeout 500,
            AddListener (newPort droppingWorld keeWebTab tabAcquired) OnDisconnect,
            AddListener (newPort droppingWorld keeWebTab tabAcquired) OnMessage,
            PostMessage (newPort droppingWorld keeWebTab tabAcquired)
              \<lparr>action = Some ''ping'', data = Some ''keeweb-connect-AAAA''\<rparr>,
            ClearTimeout,
            RemoveListener (newPort droppingWorld keeWebTab tabAcquired) OnDisconnect,
            RemoveListener (newPort droppingWorld keeWebTab tabAcquired) OnMessage,
            SetTimeout 500,
            TimerFired 500]
       (connectToTab droppingWorld (10 - 1) (tabAcquired\<lparr>opened := Suc 0\<rparr>))"
proof -
  have a: "0 < (10::int)" by simp
  have a': "1 < (10::int)" by simp
  have b: "tab tabAcquired = Some keeWebTab" by (simp add: tabAcquired_def idle_def)
  have c: "farEnd silentWorld (newPort silentWorld keeWebTab tabAcquired) = Timeout"
    by (simp add: silentWorld_def)
  have d: "farEnd droppingWorld (newPort droppingWorld keeWebTab tabAcquired) = Disconnected"
    by (simp add: droppingWorld_def)
  have f: "opened tabAcquired = 0" by (simp add: tabAcquired_def idle_def)
  have g: "tab_id keeWebTab = 2" by (simp add: keeWebTab_def)
  have n: "getRandomPortName silentWorld 0 = ''keeweb-connect-AAAA''"
    "getRandomPortName silentWorld (Suc 0) = ''keeweb-connect-BBBB''"
    "getRandomPortName droppingWorld 0 = ''keeweb-connect-AAAA''"
    by (simp_all add: silentWorld_def droppingWorld_def echoWorld_def getRandomPortName_def
        tokens_def)
  note s = retry_delays [OF a b, of silentWorld, unfolded f g n]
  note dr = retry_delays [OF a b, of droppingWorld, unfolded f g n]
  have 1: "connectToTab silentWorld 10 tabAcquired =
     after [TabsConnect 2 ''keeweb-connect-AAAA'',
            SetTimeout 500,
            AddListener (newPort silentWorld keeWebTab tabAcquired) OnDisconnect,
            AddListener (newPort silentWorld keeWebTab tabAcquired) OnMessage,
            PostMessage (newPort silentWorld keeWebTab tabAcquired)
              \<lparr>action = Some ''ping'', data = Some ''keeweb-connect-AAAA''\<rparr>,
            TimerFired 500,
            ClearTimeout,
            RemoveListener (newPort silentWorld keeWebTab tabAcquired) OnDisconnect,
            RemoveListener (newPort silentWorld keeWebTab tabAcquired) OnMessage,
            PortDisconnect (newPort silentWorld keeWebTab tabAcquired)]
       (connectToTab silentWorld (10 - 1) (tabAcquired\<lparr>opened := Suc 0\<rparr>))"
    using s [THEN conjunct1] c by (rule mp)
  have 2: "\<exists>rest. effectsOf (connectToTab silentWorld (10 - 1) (tabAcquired\<lparr>opened := Suc 0\<rparr>))
          = TabsConnect 2 ''keeweb-connect-BBBB'' # rest"
    using s [THEN conjunct2, THEN conjunct2] a' by (rule mp)
  have 3: "connectToTab droppingWorld 10 tabAcquired =
     after [TabsConnect 2 ''keeweb-connect-AAAA'',
            SetTimeout 500,
            AddListener (newPort droppingWorld keeWebTab tabAcquired) OnDisconnect,
            AddListener (newPort droppingWorld keeWebTab tabAcquired) OnMessage,
            PostMessage (newPort droppingWorld keeWebTab tabAcquired)
              \<lparr>action = Some ''ping'', data = Some ''keeweb-connect-AAAA''\<rparr>,
            ClearTimeout,
            RemoveListener (newPort droppingWorld keeWebTab tabAcquired) OnDisconnect,
            RemoveListener (newPort droppingWorld keeWebTab tabAcquired) OnMessage,
            SetTimeout 500,
            TimerFired 500]
       (connectToTab droppingWorld (10 - 1) (tabAcquired\<lparr>opened := Suc 0\<rparr>))"
    using dr [THEN conjunct2, THEN conjunct1] d by (rule mp)
  show ?thesis by (rule conjI [OF 1 conjI [OF 2 3]])
qed

section \<open>The connected transport\<close>

text \<open>
  Claim C7. \<^verbatim>\<open>disconnect()\<close> with no port tracked clears the tab and does nothing else: no
  error is emitted. With a port tracked it closes that port, clears tab and port, and
  emits exactly one error. A second \<^verbatim>\<open>disconnect()\<close> right after the first emits nothing
  and changes nothing.
\<close>

theorem disconnect_idempotent:
  "(port s = None \<longrightarrow> disconnect s = (s\<lparr>tab := None\<rparr>, []))
   \<and> (\<forall>p. port s = Some p \<longrightarrow>
         disconnect s = (s\<lparr>tab := None, port := None\<rparr>,
                         [PortDisconnect p, Emit_err ErrorKeeWebDisconnected]))
   \<and> snd (disconnect (fst (disconnect s))) = []
   \<and> fst (disconnect (fst (disconnect s))) = fst (disconnect s)"
  by (cases "port s") (simp_all add: disconnect_def)

theorem disconnect_idempotent_witness:
  "disconnect idle = (idle, [])
   \<and> disconnect connectedState
     = (idle\<lparr>opened := 1\<rparr>, [PortDisconnect examplePort, Emit_err ErrorKeeWebDisconnected])
   \<and> snd (disconnect (fst (disconnect connectedState))) = []"
proof -
  have a: "port idle = None" by (simp add: idle_def)
  have b: "port connectedState = Some examplePort" by (simp add: connectedState_def)
  have 1: "disconnect idle = (idle, [])"
    using disconnect_idempotent [of idle] a by (simp add: idle_def)
  have 2: "disconnect connectedState
     = (idle\<lparr>opened := 1\<rparr>, [PortDisconnect examplePort, Emit_err ErrorKeeWebDisconnected])"
    using disconnect_idempotent [of connectedState] b by (simp add: idle_def connectedState_def)
  have 3: "snd (disconnect (fst (disconnect connectedState))) = []"
    using disconnect_idempotent [of connectedState] by simp
  show ?thesis by (rule conjI [OF 1 conjI [OF 2 3]])
qed

text \<open>
  Claim C8. \<^verbatim>\<open>request(message)\<close> with a port tracked posts the message, unchanged, on
  that port and does nothing else. With no port tracked it emits the one error
  \<^verbatim>\<open>Port not connected\<close>, calls no method of any port, and leaves the fields as they
  were.
\<close>

theorem request_forwards_or_reports:
  "(\<forall>p. port s = Some p \<longrightarrow> request msg s = (s, [PostMessage p msg]))
   \<and> (port s = None \<longrightarrow>
        request msg s = (s, [Emit_err PortNotConnected])
        \<and> errorsEmitted (snd (request msg s)) = [Emit_err PortNotConnected]
        \<and> filter touchesPort (snd (request msg s)) = [])"
  by (cases "port s") (simp_all add: request_def)

theorem request_forwards_or_reports_witness:
  "request (pong ''hello'') connectedState
     = (connectedState, [PostMessage examplePort (pong ''hello'')])
   \<and> request (pong ''hello'') idle = (idle, [Emit_err PortNotConnected])
   \<and> filter touchesPort (snd (request (pong ''hello'') idle)) = []"
proof -
  have a: "port idle = None" by (simp add: idle_def)
  have b: "port connectedState = Some examplePort" by (simp add: connectedState_def)
  have 1: "request (pong ''hello'') connectedState
     = (connectedState, [PostMessage examplePort (pong ''hello'')])"
    using request_forwards_or_reports [of connectedState "pong ''hello''"] b by simp
  have 2: "request (pong ''hello'') idle = (idle, [Emit_err PortNotConnected])
      \<and> filter touchesPort (snd (request (pong ''hello'') idle)) = []"
    using request_forwards_or_reports [of idle "pong ''hello''"] a by simp
  show ?thesis by (rule conjI [OF 1 2])
qed

text \<open>
  Claim C10. The handler of the port's disconnect event always clears the tab; it clears
  the port and emits the disconnected error only if a port was still tracked. Run a
  second time it emits nothing, and however often the event of one connection is
  delivered, at most one error is emitted.
\<close>

theorem portDisconnected_reentrant:
  "tab (fst (portDisconnected s)) = None
   \<and> port (fst (portDisconnected s)) = None
   \<and> snd (portDisconnected s)
     = (if port s = None then [] else [Emit_err ErrorKeeWebDisconnected])
   \<and> snd (portDisconnected (fst (portDisconnected s))) = []
   \<and> length (errorsEmitted (snd (deliverDisconnect n s))) \<le> 1"
proof -
  have 5: "length (errorsEmitted (snd (deliverDisconnect n s))) \<le> 1"
  proof (cases n)
    case 0
    then show ?thesis by simp
  next
    case (Suc m)
    have "snd (deliverDisconnect m (s\<lparr>port := None, tab := None\<rparr>)) = []"
      by (rule deliverDisconnect_cleared) simp
    then show ?thesis
      using Suc
      by (cases "deliverDisconnect m (s\<lparr>port := None, tab := None\<rparr>)")
         (simp add: portDisconnected_cases)
  qed
  show ?thesis using 5 by (simp add: portDisconnected_cases)
qed

theorem portDisconnected_reentrant_witness:
  "snd (portDisconnected connectedState) = [Emit_err ErrorKeeWebDisconnected]
   \<and> snd (portDisconnected (fst (portDisconnected connectedState))) = []
   \<and> snd (portDisconnected idle) = []
   \<and> tab (fst (portDisconnected connectedState)) = None
   \<and> length (errorsEmitted (snd (deliverDisconnect 3 connectedState))) \<le> 1"
proof -
  have a: "port idle = None" by (simp add: idle_def)
  have b: "port connectedState \<noteq> None" by (simp add: connectedState_def)
  show ?thesis
    using portDisconnected_reentrant [of connectedState 3] portDisconnected_reentrant [of idle 0]
      a b by simp
qed

section \<open>Connecting\<close>

text \<open>
  Claim C5. \<^verbatim>\<open>connect()\<close> never throws and never rejects: it always resolves. When the
  permission is missing it changes nothing, asks the browser for nothing more, and emits
  the one permissions error; when no tab can be found or created it emits the one
  cannot-create-tab error; when the handshake ends without a port it tracks no port and
  emits the one cannot-connect error; and when the handshake gives a port no error is
  emitted. A failing \<^verbatim>\<open>connect()\<close> of a transport that tracked no port leaves it without
  a port.
\<close>

theorem connect_never_throws:
  "case connect w s of
     Inl e \<Rightarrow> False
   | Inr (s', es) \<Rightarrow>
       (if \<not> hasPermissions w
        then s' = s
          \<and> es = [PermissionsContains (keeWebUrl s),
                   Emit_err (ErrorBrowserTabNoPermissions (keeWebUrl s))]
        else if fst (findOrCreateTab w s) = None
        then s' = s\<lparr>tab := None\<rparr>
          \<and> errorsEmitted es = [Emit_err ErrorBrowserCannotCreateTab]
        else if resolvedWith (connectToTab w maxTabConnectionRetries
                                (s\<lparr>tab := fst (findOrCreateTab w s)\<rparr>)) = None
        then port s' = None
          \<and> errorsEmitted es = [Emit_err ErrorBrowserCannotConnectToTab]
        else port s' = resolvedWith (connectToTab w maxTabConnectionRetries
                                       (s\<lparr>tab := fst (findOrCreateTab w s)\<rparr>))
          \<and> errorsEmitted es = [])
       \<and> (port s = None \<and> errorsEmitted es \<noteq> [] \<longrightarrow> port s' = None)"
proof (cases rule: connect_cases [of w s])
  case denied
  then show ?thesis by simp
next
  case noTab
  then show ?thesis by simp
next
  case (failed t s2 e2)
  then show ?thesis by simp
next
  case (connected t p s2 e2)
  then show ?thesis by simp
qed

theorem connect_never_throws_witness:
  "connect deniedWorld idle
     = Inr (idle, [PermissionsContains keeWeb, Emit_err (ErrorBrowserTabNoPermissions keeWeb)])
   \<and> finalState (connect noTabWorld idle) = Some idle
   \<and> errorsEmitted (performed (connect noTabWorld idle)) = [Emit_err ErrorBrowserCannotCreateTab]
   \<and> map_option port (finalState (connect silentWorld idle)) = Some None
   \<and> errorsEmitted (performed (connect silentWorld idle))
     = [Emit_err ErrorBrowserCannotConnectToTab]"
proof -
  have i: "keeWebUrl idle = keeWeb" "idle\<lparr>tab := None\<rparr> = idle" "port idle = None"
    by (simp_all add: idle_def)
  have d: "\<not> hasPermissions deniedWorld"
    by (simp add: deniedWorld_def)
  have n: "hasPermissions noTabWorld" "fst (findOrCreateTab noTabWorld idle) = None"
    by (simp_all add: noTabWorld_def echoWorld_def findOrCreateTab_def)
  have 1: "connect deniedWorld idle
     = Inr (idle, [PermissionsContains keeWeb, Emit_err (ErrorBrowserTabNoPermissions keeWeb)])"
    using connect_never_throws [of deniedWorld idle] d
    by (cases "connect deniedWorld idle") (auto simp: i)
  have 2: "finalState (connect noTabWorld idle) = Some idle
      \<and> errorsEmitted (performed (connect noTabWorld idle))
        = [Emit_err ErrorBrowserCannotCreateTab]"
    using connect_never_throws [of noTabWorld idle] n
    by (cases "connect noTabWorld idle") (auto simp: i)
  have 3: "map_option port (finalState (connect silentWorld idle)) = Some None
      \<and> errorsEmitted (performed (connect silentWorld idle))
        = [Emit_err ErrorBrowserCannotConnectToTab]"
    using connect_never_throws [of silentWorld idle] silentWorld_facts(1,2) silentWorld_exhausts
    by (cases "connect silentWorld idle") (auto simp: i)
  show ?thesis using 1 2 3 by (simp only: simp_thms)
qed

text \<open>
  Claim C6, as the spec states it, has the tab and the port both cleared after a
  terminal handshake failure of \<^verbatim>\<open>connect()\<close>. On the source, when the page never answers,
  \<^verbatim>\<open>connect()\<close> ends with the cannot-connect error and no port, but the tab it acquired
  is still tracked.
\<close>

theorem tab_outlives_failed_handshake_counterexample:
  "map_option tab (finalState (connect silentWorld idle)) = Some (Some keeWebTab)
   \<and> map_option port (finalState (connect silentWorld idle)) = Some None
   \<and> errorsEmitted (performed (connect silentWorld idle))
     = [Emit_err ErrorBrowserCannotConnectToTab]"
proof -
  obtain s' es where "connect silentWorld idle = Inr (s', es)" "port s' = None"
    "tab s' = Some keeWebTab" "errorsEmitted es = [Emit_err ErrorBrowserCannotConnectToTab]"
    using connect_handshake_failed [OF silentWorld_facts(1,2) silentWorld_exhausts] by blast
  then show ?thesis by simp
qed

text \<open>
  Claim C6, amended. After \<^verbatim>\<open>disconnect()\<close> neither the tab nor the port is tracked.
  After a terminal handshake failure of \<^verbatim>\<open>connect()\<close> no port is tracked, and the tab
  acquired for this \<^verbatim>\<open>connect()\<close> stays tracked.
\<close>

theorem teardown:
  "tab (fst (disconnect s)) = None \<and> port (fst (disconnect s)) = None
   \<and> (\<forall>t. hasPermissions w \<and> fst (findOrCreateTab w s) = Some t
          \<and> resolvedWith (connectToTab w maxTabConnectionRetries (s\<lparr>tab := Some t\<rparr>)) = None
        \<longrightarrow> (case connect w s of
               Inl e \<Rightarrow> False
             | Inr (s', es) \<Rightarrow> port s' = None \<and> tab s' = Some t))"
proof -
  have 1: "tab (fst (disconnect s)) = None \<and> port (fst (disconnect s)) = None"
    by (cases "port s") (simp_all add: disconnect_def)
  have 2: "\<forall>t. hasPermissions w \<and> fst (findOrCreateTab w s) = Some t
          \<and> resolvedWith (connectToTab w maxTabConnectionRetries (s\<lparr>tab := Some t\<rparr>)) = None
        \<longrightarrow> (case connect w s of
               Inl e \<Rightarrow> False
             | Inr (s', es) \<Rightarrow> port s' = None \<and> tab s' = Some t)"
  proof (intro allI impI, elim conjE)
    fix t
    assume "hasPermissions w" "fst (findOrCreateTab w s) = Some t"
      "resolvedWith (connectToTab w maxTabConnectionRetries (s\<lparr>tab := Some t\<rparr>)) = None"
    from connect_handshake_failed [OF this]
    obtain s' es where "connect w s = Inr (s', es)" "port s' = None" "tab s' = Some t"
      by blast
    then show "case connect w s of
               Inl e \<Rightarrow> False
             | Inr (s', es) \<Rightarrow> port s' = None \<and> tab s' = Some t"
      by simp
  qed
  show ?thesis using 1 2 by (simp only: simp_thms)
qed

theorem teardown_witness:
  "tab (fst (disconnect connectedState)) = None
   \<and> port (fst (disconnect connectedState)) = None
   \<and> (case connect silentWorld idle of
         Inl e \<Rightarrow> False
       | Inr (s', es) \<Rightarrow> port s' = None \<and> tab s' = Some keeWebTab)"
  using teardown [of connectedState silentWorld] teardown [of idle silentWorld]
    silentWorld_facts(1,2) silentWorld_exhausts
  by blast

text \<open>
  Claim C9. When \<^verbatim>\<open>connect()\<close> has acquired a tab: if there was an active tab at the
  start and its id is not the id of the acquired tab, \<^verbatim>\<open>activateTab\<close> is called exactly
  once, with that tab; otherwise it is never called. This holds whether the handshake
  ended with a port or without one.
\<close>

theorem focus_restored:
  assumes "hasPermissions w" and "fst (findOrCreateTab w s) = Some t"
  shows "case connect w s of
     Inl e \<Rightarrow> False
   | Inr (s', es) \<Rightarrow>
       activations es
         = (case getActiveTab w of
              None \<Rightarrow> []
            | Some a \<Rightarrow> if tab_id a \<noteq> tab_id t then [ActivateTab a] else [])
       \<and> port s' = resolvedWith (connectToTab w maxTabConnectionRetries (s\<lparr>tab := Some t\<rparr>))"
proof (cases "resolvedWith (connectToTab w maxTabConnectionRetries (s\<lparr>tab := Some t\<rparr>))")
  case None
  obtain s' es where c: "connect w s = Inr (s', es)" "port s' = None"
    using connect_handshake_failed [OF assms None] by blast
  obtain s'' es' where "connect w s = Inr (s'', es')"
    "activations es' = (case getActiveTab w of
                           None \<Rightarrow> []
                         | Some a \<Rightarrow> if tab_id t \<noteq> tab_id a then [ActivateTab a] else [])"
    using connect_activations [OF assms] by blast
  with c None show ?thesis by (auto split: option.splits)
next
  case (Some p)
  obtain s' es where c: "connect w s = Inr (s', es)" "port s' = Some p"
    using connect_handshake_succeeded [OF assms Some] by blast
  obtain s'' es' where "connect w s = Inr (s'', es')"
    "activations es' = (case getActiveTab w of
                           None \<Rightarrow> []
                         | Some a \<Rightarrow> if tab_id t \<noteq> tab_id a then [ActivateTab a] else [])"
    using connect_activations [OF assms] by blast
  with c Some show ?thesis by (auto split: option.splits)
qed

theorem focus_restored_witness:
  "activations (performed (connect echoWorld idle)) = [ActivateTab userTab]
   \<and> map_option port (finalState (connect echoWorld idle)) = Some (Some examplePort)
   \<and> activations (performed (connect silentWorld idle)) = [ActivateTab userTab]
   \<and> map_option port (finalState (connect silentWorld idle)) = Some None
   \<and> activations (performed (connect sameTabWorld idle)) = []"
proof -
  have t: "tab_id userTab \<noteq> tab_id keeWebTab"
    by (simp add: userTab_def keeWebTab_def)
  have 1: "activations (performed (connect echoWorld idle)) = [ActivateTab userTab]
      \<and> map_option port (finalState (connect echoWorld idle)) = Some (Some examplePort)"
    using focus_restored [OF echoWorld_facts(1,2)] echoWorld_facts(3) echoWorld_connects t
    by (cases "connect echoWorld idle") auto
  have 2: "activations (performed (connect silentWorld idle)) = [ActivateTab userTab]
      \<and> map_option port (finalState (connect silentWorld idle)) = Some None"
    using focus_restored [OF silentWorld_facts(1,2)] silentWorld_facts(3) silentWorld_exhausts t
    by (cases "connect silentWorld idle") auto
  have 3: "activations (performed (connect sameTabWorld idle)) = []"
    using focus_restored [OF echoWorld_facts(4,5)] echoWorld_facts(6)
    by (cases "connect sameTabWorld idle") auto
  show ?thesis using 1 2 3 by (simp only: simp_thms)
qed

end
